theory Spec2Isabelle
  imports Complex_Main
begin

section \<open>Data model of the context menu (menu.ts)\<close>

text \<open>
  Numbers of the source are idealised as reals (pixel coordinates) and as integers
  (the millisecond readings of the clock).  The source computes in doubles, which agree
  with the reals as long as every intermediate result is an integer below 2 to the
  power 53; the one statement that depends on where exactly a row ends, the shape of
  the selection path, is made for such inputs.
\<close>

record Vec2 =
  vx :: real
  vy :: real

text \<open>
  Modelled from the spec: the vector helpers \<open>vec2\<close>, \<open>add\<close> and \<open>sub\<close> are imported
  from a shared math module that is not part of this file; the spec names them as the
  generic 2D add/subtract on points.
\<close>

definition vec2 :: "real \<Rightarrow> real \<Rightarrow> Vec2" where
  "vec2 a b = \<lparr>vx = a, vy = b\<rparr>"

definition add :: "Vec2 \<Rightarrow> Vec2 \<Rightarrow> Vec2" where
  "add a b = vec2 (vx a + vx b) (vy a + vy b)"

definition sub :: "Vec2 \<Rightarrow> Vec2 \<Rightarrow> Vec2" where
  "sub a b = vec2 (vx a - vx b) (vy a - vy b)"

datatype MenuOptionType = Default | Header | Spacer

text \<open>
  A menu option.  The field \<open>oid\<close> is the identity of the JavaScript object: the
  source compares options with \<open>==\<close> and \<open>!=\<close>, which compare references.
\<close>

datatype MenuOption = MenuOption
  (oid: nat)
  (type: MenuOptionType)
  (label: string)
  (action: string)
  (shortcut: string)
  (children: "MenuOption list")
  (computedOffset: real)
  (enabled: bool)

definition sameObject :: "MenuOption \<Rightarrow> MenuOption \<Rightarrow> bool" where
  "sameObject a b = (oid a = oid b)"

record OptionTree =
  options :: "MenuOption list"

record Menu =
  position :: Vec2
  mousePosition :: Vec2
  mousePositionOnOpen :: Vec2
  tree :: OptionTree
  visible :: bool
  optionPath :: "MenuOption list"
  disableBufferTriangles :: bool
  enteredRootElementTimestamp :: int

definition pointInBox :: "Vec2 \<Rightarrow> Vec2 \<Rightarrow> Vec2 \<Rightarrow> bool" where
  "pointInBox point upperLeft sz =
     (let delta = sub point upperLeft
      in vx delta < vx sz \<and> vy delta < vy sz \<and> vx delta \<ge> 0 \<and> vy delta \<ge> 0)"


text \<open>
  The barycentric weights of a point (see \<open>baycentric\<close> in the source).  The result is
  \<open>None\<close> when \<open>denom\<close> is zero: the source then divides by zero, every weight is
  an infinity or NaN, and the test \<open>pointInTriangle\<close> on them is false.
\<close>

definition dot :: "Vec2 \<Rightarrow> Vec2 \<Rightarrow> real" where
  "dot a b = vx a * vx b + vy a * vy b"

definition baycentric :: "Vec2 \<Rightarrow> Vec2 list \<Rightarrow> (real list) option" where
  "baycentric point triangle =
     (let v0 = sub (triangle ! 1) (triangle ! 0);
          v1 = sub (triangle ! 2) (triangle ! 0);
          v2 = sub point (triangle ! 0);
          d00 = dot v0 v0;
          d01 = dot v0 v1;
          d11 = dot v1 v1;
          d20 = dot v2 v0;
          d21 = dot v2 v1;
          denom = d00 * d11 - d01 * d01
      in if denom = 0 then None
         else (let v = (d11 * d20 - d01 * d21) / denom;
                   w = (d00 * d21 - d01 * d20) / denom;
                   u = 1 - v - w
               in Some [u, v, w]))"

definition pointInTriangle :: "Vec2 \<Rightarrow> Vec2 list \<Rightarrow> bool" where
  "pointInTriangle point triangle =
     (case baycentric point triangle of
        None \<Rightarrow> False
      | Some b \<Rightarrow> b ! 0 \<ge> 0 \<and> b ! 1 \<ge> 0 \<and> b ! 2 \<ge> 0)"

section \<open>What the file imports\<close>

text \<open>
  The constants of the modules \<open>rendering/sizes\<close>, \<open>actions/state\<close> and
  \<open>actions/keyboard\<close> are not part of this file; they are parameters of the model.
  \<open>shortcuts\<close> lists the entries of \<open>KeyboardActions.shortcuts\<close> (key, action) in the
  order of \<open>Object.keys\<close>.
\<close>

record StateActionKeys =
  Copy :: string
  SetGuideFrame :: string
  SetGuideValue :: string
  HandleToLinear :: string
  HandleToBeizer :: string
  InsertKeyframe :: string
  InsertKeyframeAllCurves :: string
  SnapFrame :: string
  SnapValue :: string

record Imports =
  MenuWidth :: real
  PropertiesWidth :: real
  keys :: StateActionKeys
  shortcuts :: "(string \<times> string) list"

text \<open>What the menu reads from its parent, the editor state.\<close>

record State =
  selectedPoint :: bool
  selectedCurve :: bool
  boundsX :: real

section \<open>The option tree and its layout\<close>

definition offsetOf :: "MenuOption \<Rightarrow> real" where
  "offsetOf option = (case type option of Spacer \<Rightarrow> 2 | _ \<Rightarrow> 20)"

definition menu_size :: "Imports \<Rightarrow> MenuOption list \<Rightarrow> Vec2" where
  "menu_size I opts = vec2 (MenuWidth I) (fold (\<lambda>v height. height + offsetOf v) opts 0)"

text \<open>
  \<open>computeOffsetFrom height options\<close> is the loop of \<open>computeOffsetForOptions\<close> with
  its running \<open>height\<close>; the options are objects that the source updates in place.
\<close>

fun computeOffsetFrom :: "real \<Rightarrow> MenuOption list \<Rightarrow> MenuOption list" where
  "computeOffsetFrom height [] = []"
| "computeOffsetFrom height (MenuOption i t l a s cs off e # vs) =
     MenuOption i t l a s (if cs \<noteq> [] then computeOffsetFrom 12 cs else cs) height e
       # computeOffsetFrom (height + offsetOf (MenuOption i t l a s cs off e)) vs"

definition computeOffsetForOptions :: "MenuOption list \<Rightarrow> MenuOption list" where
  "computeOffsetForOptions opts = computeOffsetFrom 12 opts"

text \<open>
  The three constructors of options.  \<open>ref\<close> is the identity of the object that the
  call creates.
\<close>

definition simpleOption ::
  "Imports \<Rightarrow> nat \<Rightarrow> string \<Rightarrow> string \<Rightarrow> bool \<Rightarrow> MenuOption list \<Rightarrow> MenuOption" where
  "simpleOption I ref lbl act en chs =
     (let sc = fold (\<lambda>(v, a) sc. if a = act then v else sc) (shortcuts I) ''''
      in MenuOption ref Default lbl act sc chs 0 en)"

definition spacer :: "nat \<Rightarrow> MenuOption" where
  "spacer ref = MenuOption ref Spacer '''' '''' '''' [] 0 True"

definition header :: "nat \<Rightarrow> string \<Rightarrow> MenuOption" where
  "header ref name = MenuOption ref Header name '''' '''' [] 0 True"

section \<open>The controller\<close>

definition setOptionTree :: "OptionTree \<Rightarrow> Menu \<Rightarrow> Menu" where
  "setOptionTree opts m = m\<lparr>tree := opts\<rparr>"

text \<open>
  \<open>rebuildOptions\<close> creates seventeen option objects; \<open>ref\<close> is the identity of the
  first, the others follow in the order of their creation.
\<close>

definition rebuildOptions :: "Imports \<Rightarrow> State \<Rightarrow> nat \<Rightarrow> Menu \<Rightarrow> Menu" where
  "rebuildOptions I parent ref m =
     (let hasSelectedPoint = selectedPoint parent;
          hasSelectedCurve = selectedCurve parent;
          opts =
            [ header ref ''Curve Context Menu'',
              spacer (ref + 1),
              simpleOption I (ref + 2) ''Copy'' (Copy (keys I)) hasSelectedPoint [],
              spacer (ref + 3),
              simpleOption I (ref + 4) ''Move frame guide'' (SetGuideFrame (keys I)) True [],
              simpleOption I (ref + 5) ''Move value guide'' (SetGuideValue (keys I)) True [],
              spacer (ref + 6),
              simpleOption I (ref + 9) ''Handle Type'' '''' hasSelectedPoint
                [ simpleOption I (ref + 7) ''Linear'' (HandleToLinear (keys I)) True [],
                  simpleOption I (ref + 8) ''Beizer'' (HandleToBeizer (keys I)) True [] ],
              simpleOption I (ref + 10) ''Insert keyframe'' (InsertKeyframe (keys I)) True [],
              simpleOption I (ref + 11) ''Insert keyframe in all curves''
                (InsertKeyframeAllCurves (keys I)) True [],
              simpleOption I (ref + 16) ''Snap'' '''' hasSelectedPoint
                [ header (ref + 12) ''Snap ...'',
                  spacer (ref + 13),
                  simpleOption I (ref + 14) ''To selected frame'' (SnapFrame (keys I)) True [],
                  simpleOption I (ref + 15) ''Value to guide'' (SnapValue (keys I)) True [] ] ]
      in setOptionTree \<lparr>options = computeOffsetForOptions opts\<rparr> m)"

definition new_Menu :: "Imports \<Rightarrow> State \<Rightarrow> nat \<Rightarrow> Menu" where
  "new_Menu I parent ref =
     (rebuildOptions I parent ref
        \<lparr>position = vec2 0 0, mousePosition = vec2 0 0, mousePositionOnOpen = vec2 0 0,
         tree = \<lparr>options = []\<rparr>, visible = False, optionPath = [],
         disableBufferTriangles = True, enteredRootElementTimestamp = 0\<rparr>)
       \<lparr>visible := False\<rparr>"

definition show_menu :: "Imports \<Rightarrow> State \<Rightarrow> nat \<Rightarrow> Menu \<Rightarrow> Menu" where
  "show_menu I parent ref m = (rebuildOptions I parent ref m)\<lparr>visible := True\<rparr>"

definition hide :: "Menu \<Rightarrow> Menu" where
  "hide m = m\<lparr>visible := False\<rparr>"


section \<open>The hit test\<close>

text \<open>The two buffer triangles of the root of an open submenu.\<close>

definition stickyUpperLeft :: "Menu \<Rightarrow> MenuOption \<Rightarrow> Vec2" where
  "stickyUpperLeft m root' =
     vec2 (vx (position m)) (vy (position m) + computedOffset root' - 10)"

definition upperBufferTriangle :: "Imports \<Rightarrow> Menu \<Rightarrow> MenuOption \<Rightarrow> Vec2 list" where
  "upperBufferTriangle I m root' =
     (let sz = menu_size I (options (tree m));
          upperLeft = stickyUpperLeft m root'
      in [upperLeft, add upperLeft (vec2 (vx sz) 0), add upperLeft (vec2 (vx sz) (- 15))])"

definition lowerBufferTriangle :: "Imports \<Rightarrow> Menu \<Rightarrow> MenuOption \<Rightarrow> Vec2 list" where
  "lowerBufferTriangle I m root' =
     (let sz = menu_size I (options (tree m));
          childSize = menu_size I (children root');
          upperLeft = stickyUpperLeft m root';
          lowerLeft = add upperLeft (vec2 0 (offsetOf root'))
      in [lowerLeft, add lowerLeft (vec2 (vx sz) (vy childSize)), add lowerLeft (vec2 (vx sz) 0)])"

text \<open>
  The test of one child row, as both loops over children make it: \<open>upperLeft\<close> is the
  corner of the row of the root.  A hit pushes the root and the child.
\<close>

definition childRowHit :: "Menu \<Rightarrow> Vec2 \<Rightarrow> Vec2 \<Rightarrow> Vec2 \<Rightarrow> MenuOption \<Rightarrow> bool" where
  "childRowHit m sz upperLeft childSize c =
     pointInBox (mousePosition m)
       (add upperLeft (vec2 (vx sz) (computedOffset c - 10)))
       (vec2 (vx childSize) (offsetOf c))"

text \<open>
  The block for an open submenu.  \<open>Some\<close> is a \<open>return\<close> from inside the block,
  \<open>None\<close> means that control falls through to the scan of the whole tree.
\<close>

definition stickySubmenu :: "Imports \<Rightarrow> Menu \<Rightarrow> (MenuOption list \<times> Menu) option" where
  "stickySubmenu I m =
     (let sz = menu_size I (options (tree m))
      in case optionPath m of
           [] \<Rightarrow> None
         | root' # _ \<Rightarrow>
             if children root' = [] then None
             else
               (let childSize = menu_size I (children root');
                    inRootOption = pointInBox (mousePosition m)
                      (vec2 (vx (position m)) (vy (position m) + computedOffset root'))
                      (vec2 (vx sz) (offsetOf root'));
                    inChildMenu = pointInBox (mousePosition m)
                      (add (position m) (vec2 (vx sz) (computedOffset root' - 10)))
                      childSize;
                    upperLeft = stickyUpperLeft m root';
                    inUpperBufferTriangle0 =
                      pointInTriangle (mousePosition m) (upperBufferTriangle I m root');
                    inLowerBufferTriangle0 =
                      pointInTriangle (mousePosition m) (lowerBufferTriangle I m root');
                    inLowerBufferTriangle =
                      (if disableBufferTriangles m then False else inLowerBufferTriangle0);
                    inUpperBufferTriangle =
                      (if disableBufferTriangles m then False else inUpperBufferTriangle0);
                    inChildBuffer = pointInBox (mousePosition m)
                      (add (position m) (vec2 (vx sz - 15) (computedOffset root' - 35)))
                      (add childSize (vec2 30 50))
                in if inRootOption \<or> inChildMenu \<or> inUpperBufferTriangle
                      \<or> inLowerBufferTriangle \<or> inChildBuffer
                   then (if inChildMenu
                         then Some (fold (\<lambda>c result.
                                      if childRowHit m sz upperLeft childSize c
                                      then result @ [root', c] else result)
                                    (children root') [],
                                    m\<lparr>disableBufferTriangles := True\<rparr>)
                         else Some ([root'], m))
                   else None))"

text \<open>
  The scan of the whole tree.  Its loop state is the \<open>result\<close> so far, the menu (of
  which the loop writes the flag and the timestamp) and the number of clock readings
  taken so far; \<open>clock k\<close> is the value of the \<open>k\<close>-th \<open>new Date().valueOf()\<close> of the
  call.
\<close>

definition rootChanged :: "MenuOption \<Rightarrow> MenuOption list \<Rightarrow> bool" where
  "rootChanged v path = (case path of [] \<Rightarrow> True | r # _ \<Rightarrow> \<not> sameObject v r)"

definition rootRowHit :: "Menu \<Rightarrow> Vec2 \<Rightarrow> MenuOption \<Rightarrow> bool" where
  "rootRowHit m sz v =
     pointInBox (mousePosition m)
       (vec2 (vx (position m)) (vy (position m) + computedOffset v - 10))
       (vec2 (vx sz) (offsetOf v))"

definition enterRoot ::
  "(nat \<Rightarrow> int) \<Rightarrow> MenuOption \<Rightarrow> MenuOption list \<times> Menu \<times> nat \<Rightarrow> MenuOption list \<times> Menu \<times> nat" where
  "enterRoot clock v st =
     (case st of (result, m, k) \<Rightarrow>
        (let now = clock k;
             m1 = (if disableBufferTriangles m \<and> rootChanged v (optionPath m)
                   then m\<lparr>enteredRootElementTimestamp := now\<rparr> else m);
             m2 = (if now - enteredRootElementTimestamp m1 > 500
                   then m1\<lparr>disableBufferTriangles := False\<rparr> else m1)
         in (result @ [v], m2, Suc k)))"

definition scanChild ::
  "Vec2 \<Rightarrow> Vec2 \<Rightarrow> Vec2 \<Rightarrow> MenuOption \<Rightarrow> MenuOption
     \<Rightarrow> MenuOption list \<times> Menu \<times> nat \<Rightarrow> MenuOption list \<times> Menu \<times> nat" where
  "scanChild sz upperLeft childSize v c st =
     (case st of (result, m, k) \<Rightarrow>
        if childRowHit m sz upperLeft childSize c
        then (result @ [v, c], m\<lparr>disableBufferTriangles := True\<rparr>, k)
        else (result, m, k))"

definition scanRoot ::
  "Imports \<Rightarrow> (nat \<Rightarrow> int) \<Rightarrow> Vec2 \<Rightarrow> MenuOption
     \<Rightarrow> MenuOption list \<times> Menu \<times> nat \<Rightarrow> MenuOption list \<times> Menu \<times> nat" where
  "scanRoot I clock sz v st =
     (case st of (result, m, k) \<Rightarrow>
        (let upperLeft = vec2 (vx (position m)) (vy (position m) + computedOffset v - 10);
             st1 = (if rootRowHit m sz v then enterRoot clock v st else st);
             childSize = menu_size I (children v)
         in fold (scanChild sz upperLeft childSize v) (children v) st1))"

definition optionPathUnderMouse ::
  "Imports \<Rightarrow> (nat \<Rightarrow> int) \<Rightarrow> Menu \<Rightarrow> MenuOption list \<times> Menu" where
  "optionPathUnderMouse I clock m =
     (case stickySubmenu I m of
        Some r \<Rightarrow> r
      | None \<Rightarrow>
          (let sz = menu_size I (options (tree m))
           in case fold (scanRoot I clock sz) (options (tree m)) ([], m, 0) of
                (result, m', k) \<Rightarrow> (result, m')))"

definition click :: "Imports \<Rightarrow> (nat \<Rightarrow> int) \<Rightarrow> Vec2 \<Rightarrow> Menu \<Rightarrow> string \<times> Menu" where
  "click I clock v m =
     (if visible m then
        (case optionPathUnderMouse I clock (m\<lparr>mousePosition := v\<rparr>) of
           (path, m1) \<Rightarrow>
             (let m2 = m1\<lparr>optionPath := path\<rparr>
              in if path \<noteq> [] then
                   (let selected = path ! (length path - 1)
                    in if (length path = 1 \<and> sameObject (path ! 0) selected
                             \<and> length (children (path ! 0)) = 0)
                          \<or> length path = 2
                       then (if enabled selected then (action selected, hide m2)
                             else ('''', hide m2))
                       else ('''', m2))
                 else ('''', m2)))
      else ('''', m))"

definition setMousePosition :: "Imports \<Rightarrow> (nat \<Rightarrow> int) \<Rightarrow> Vec2 \<Rightarrow> Menu \<Rightarrow> Menu" where
  "setMousePosition I clock v m =
     (let m0 = m\<lparr>mousePosition := v\<rparr>
      in if \<not> visible m0 then m0\<lparr>optionPath := []\<rparr>
         else
           (case optionPathUnderMouse I clock m0 of
              (path, m1) \<Rightarrow>
                (let m2 = m1\<lparr>optionPath := path\<rparr>
                 in if length path = 0
                    then (if \<not> pointInBox (mousePosition m2)
                                 (add (position m2) (vec2 (- 40) (- 40)))
                                 (add (menu_size I (options (tree m2))) (vec2 80 150))
                          then hide m2 else m2)
                    else m2)))"

section \<open>Notions used to state the properties\<close>

text \<open>
  A resolved selection, in the words of the specification: a path of length 1 whose
  root has no children, or a path of length 2.
\<close>

definition resolvedSelection :: "MenuOption list \<Rightarrow> bool" where
  "resolvedSelection path =
     ((length path = 1 \<and> children (path ! 0) = []) \<or> length path = 2)"

text \<open>
  \<open>onlyTimerChanged m m'\<close>: the two states agree on every field but the buffer flag
  and the timestamp.
\<close>

definition onlyTimerChanged :: "Menu \<Rightarrow> Menu \<Rightarrow> bool" where
  "onlyTimerChanged m m' =
     (m' = m\<lparr>disableBufferTriangles := disableBufferTriangles m',
              enteredRootElementTimestamp := enteredRootElementTimestamp m'\<rparr>)"

text \<open>The horizontal and the vertical extent of a polygon given by its corners.\<close>

definition spanX :: "Vec2 list \<Rightarrow> real" where
  "spanX ps = Max (set (map vx ps)) - Min (set (map vx ps))"

definition spanY :: "Vec2 list \<Rightarrow> real" where
  "spanY ps = Max (set (map vy ps)) - Min (set (map vy ps))"

text \<open>Concrete imports, a parent state and a clock, for the worked examples.\<close>

definition demoKeys :: StateActionKeys where
  "demoKeys = \<lparr>Copy = ''copy'', SetGuideFrame = ''guide-frame'',
     SetGuideValue = ''guide-value'', HandleToLinear = ''linear'',
     HandleToBeizer = ''beizer'', InsertKeyframe = ''insert'',
     InsertKeyframeAllCurves = ''insert-all'', SnapFrame = ''snap-frame'',
     SnapValue = ''snap-value''\<rparr>"

definition demoImports :: Imports where
  "demoImports = \<lparr>MenuWidth = 100, PropertiesWidth = 50, keys = demoKeys,
     shortcuts = [(''c'', ''copy'')]\<rparr>"

definition demoParent :: "bool \<Rightarrow> State" where
  "demoParent sel = \<lparr>selectedPoint = sel, selectedCurve = False, boundsX = 1000\<rparr>"

definition demoClock :: "nat \<Rightarrow> int" where
  "demoClock k = 1000 + int k"

text \<open>The menu after construction and \<open>show()\<close>, with and without a selected point.\<close>

definition demoMenu :: "bool \<Rightarrow> Menu" where
  "demoMenu sel =
     show_menu demoImports (demoParent sel) 17 (new_Menu demoImports (demoParent sel) 0)"

definition laterClock :: "nat \<Rightarrow> int" where
  "laterClock k = 2000 + int k"

text \<open>
  The menu after the pointer has rested on the Copy row for a second and has then moved
  down to the Snap row: the submenu of Snap is open and the buffers are enabled.
\<close>

definition demoSnapOpen :: Menu where
  "demoSnapOpen =
     setMousePosition demoImports laterClock (vec2 10 155)
       (setMousePosition demoImports laterClock (vec2 10 35)
          (setMousePosition demoImports demoClock (vec2 10 30) (demoMenu True)))"




















section \<open>Geometry\<close>

text \<open>
  C5: \<open>pointInBox\<close> holds exactly when both coordinate differences lie in the
  half-open intervals from 0 to the size; a point on the right or on the lower
  boundary is outside.
\<close>

theorem pointInBox_half_open:
  "(pointInBox p ul sz \<longleftrightarrow>
      (0 \<le> vx p - vx ul \<and> vx p - vx ul < vx sz \<and> 0 \<le> vy p - vy ul \<and> vy p - vy ul < vy sz))
   \<and> (vx p - vx ul = vx sz \<longrightarrow> \<not> pointInBox p ul sz)
   \<and> (vy p - vy ul = vy sz \<longrightarrow> \<not> pointInBox p ul sz)"
  by (auto simp: pointInBox_def sub_def vec2_def)

theorem pointInBox_half_open_witness:
  "pointInBox (vec2 3 4) (vec2 1 1) (vec2 5 5)
   \<and> \<not> pointInBox (vec2 6 4) (vec2 1 1) (vec2 5 5)
   \<and> \<not> pointInBox (vec2 3 6) (vec2 1 1) (vec2 5 5)"
  using pointInBox_half_open [of "vec2 3 4" "vec2 1 1" "vec2 5 5"]
    pointInBox_half_open [of "vec2 6 4" "vec2 1 1" "vec2 5 5"]
    pointInBox_half_open [of "vec2 3 6" "vec2 1 1" "vec2 5 5"]
  by (simp add: vec2_def)

section \<open>Frame of the hit test\<close>

lemma onlyTimerChanged_iff:
  "onlyTimerChanged m m' \<longleftrightarrow>
     position m' = position m \<and> mousePosition m' = mousePosition m
     \<and> mousePositionOnOpen m' = mousePositionOnOpen m \<and> tree m' = tree m
     \<and> visible m' = visible m \<and> optionPath m' = optionPath m"
  unfolding onlyTimerChanged_def by (cases m; cases m') auto

lemma childRowHit_cong:
  "onlyTimerChanged m m' \<Longrightarrow> childRowHit m' sz ul cs c = childRowHit m sz ul cs c"
  by (simp add: onlyTimerChanged_iff childRowHit_def)


text \<open>The loop over the children of one root.\<close>

lemma scanChild_apply:
  "scanChild sz ul cs v c (res, m, k) =
     (if childRowHit m sz ul cs c
      then (res @ [v, c], m\<lparr>disableBufferTriangles := True\<rparr>, k) else (res, m, k))"
  by (simp add: scanChild_def)

lemma fold_scanChild:
  "fold (scanChild sz ul cs v) xs (res, m, k) = (res', m', k') \<Longrightarrow>
     onlyTimerChanged m m' \<and> k' = k
     \<and> res' = res @ concat (map (\<lambda>c. if childRowHit m sz ul cs c then [v, c] else []) xs)
     \<and> enteredRootElementTimestamp m' = enteredRootElementTimestamp m
     \<and> disableBufferTriangles m' =
         (if \<exists>c\<in>set xs. childRowHit m sz ul cs c then True else disableBufferTriangles m)"
proof (induction xs arbitrary: res m)
  case Nil
  then show ?case by (simp add: onlyTimerChanged_iff)
next
  case (Cons x xs)
  show ?case
  proof (cases "childRowHit m sz ul cs x")
    case True
    let ?m1 = "m\<lparr>disableBufferTriangles := True\<rparr>"
    have o: "onlyTimerChanged m ?m1" by (simp add: onlyTimerChanged_iff)
    from Cons.prems True
    have "fold (scanChild sz ul cs v) xs (res @ [v, x], ?m1, k) = (res', m', k')"
      by (simp add: scanChild_apply)
    from Cons.IH[OF this] o True show ?thesis
      by (auto simp: onlyTimerChanged_iff childRowHit_def)
  next
    case False
    from Cons.prems False
    have "fold (scanChild sz ul cs v) xs (res, m, k) = (res', m', k')"
      by (simp add: scanChild_apply)
    from Cons.IH[OF this] False show ?thesis by auto
  qed
qed

lemma enterRoot_apply:
  "enterRoot clock v (res, m, k) =
     (res @ [v],
      m\<lparr>enteredRootElementTimestamp :=
           (if disableBufferTriangles m \<and> rootChanged v (optionPath m)
            then clock k else enteredRootElementTimestamp m),
        disableBufferTriangles :=
           (if clock k - (if disableBufferTriangles m \<and> rootChanged v (optionPath m)
                          then clock k else enteredRootElementTimestamp m) > 500
            then False else disableBufferTriangles m)\<rparr>,
      Suc k)"
  by (cases m) (simp add: enterRoot_def Let_def)

lemma scanRoot_apply:
  "scanRoot I clock sz v (res, m, k) =
     fold (scanChild sz (stickyUpperLeft m v) (menu_size I (children v)) v) (children v)
       (if rootRowHit m sz v then enterRoot clock v (res, m, k) else (res, m, k))"
  by (simp add: scanRoot_def stickyUpperLeft_def)

lemma scanRoot_result:
  assumes "scanRoot I clock sz v (res, m, k) = (res', m', k')"
  shows "onlyTimerChanged m m' \<and>
         res' = res @ (if rootRowHit m sz v then [v] else [])
                  @ concat (map (\<lambda>c. if childRowHit m sz (stickyUpperLeft m v)
                                             (menu_size I (children v)) c
                                      then [v, c] else []) (children v))"
proof (cases "rootRowHit m sz v")
  case True
  obtain m1 where e: "enterRoot clock v (res, m, k) = (res @ [v], m1, Suc k)"
    and o: "onlyTimerChanged m m1"
    by (simp add: enterRoot_apply onlyTimerChanged_iff)
  from assms True e
  have "fold (scanChild sz (stickyUpperLeft m v) (menu_size I (children v)) v) (children v)
          (res @ [v], m1, Suc k) = (res', m', k')"
    by (simp add: scanRoot_apply)
  from fold_scanChild[OF this] o True show ?thesis
    by (simp add: onlyTimerChanged_iff childRowHit_def)
next
  case False
  from assms False
  have "fold (scanChild sz (stickyUpperLeft m v) (menu_size I (children v)) v) (children v)
          (res, m, k) = (res', m', k')"
    by (simp add: scanRoot_apply)
  from fold_scanChild[OF this] False show ?thesis by simp
qed

lemma fold_scanRoot_result:
  "fold (scanRoot I clock sz) os (res, m, k) = (res', m', k') \<Longrightarrow>
     onlyTimerChanged m m' \<and>
     res' = res @ concat (map (\<lambda>v. (if rootRowHit m sz v then [v] else [])
                  @ concat (map (\<lambda>c. if childRowHit m sz (stickyUpperLeft m v)
                                             (menu_size I (children v)) c
                                      then [v, c] else []) (children v))) os)"
proof (induction os arbitrary: res m k)
  case Nil
  then show ?case by (simp add: onlyTimerChanged_iff)
next
  case (Cons v os)
  obtain r1 m1 k1 where s: "scanRoot I clock sz v (res, m, k) = (r1, m1, k1)"
    by (metis prod_cases3)
  from Cons.prems s have f: "fold (scanRoot I clock sz) os (r1, m1, k1) = (res', m', k')"
    by simp
  from scanRoot_result[OF s] have o: "onlyTimerChanged m m1" and r: "r1 = res @ (if rootRowHit m sz v then [v] else [])
                  @ concat (map (\<lambda>c. if childRowHit m sz (stickyUpperLeft m v)
                                             (menu_size I (children v)) c
                                      then [v, c] else []) (children v))" by simp_all
  have g: "\<And>u c cs. childRowHit m1 sz (stickyUpperLeft m1 u) cs c = childRowHit m sz (stickyUpperLeft m u) cs c"
    "\<And>u. rootRowHit m1 sz u = rootRowHit m sz u"
    using o by (simp_all add: onlyTimerChanged_iff childRowHit_def rootRowHit_def stickyUpperLeft_def)
  from Cons.IH[OF f] o r show ?case
    by (simp add: g onlyTimerChanged_iff)
qed

lemma stickySubmenu_frame:
  "stickySubmenu I m = Some (p, m') \<Longrightarrow> onlyTimerChanged m m'"
  by (auto simp: stickySubmenu_def Let_def onlyTimerChanged_iff split: list.splits if_splits)

lemma optionPathUnderMouse_frame:
  "optionPathUnderMouse I clock m = (p, m') \<Longrightarrow> onlyTimerChanged m m'"
  by (auto simp: optionPathUnderMouse_def Let_def split: option.splits prod.splits
           dest: stickySubmenu_frame fold_scanRoot_result)

section \<open>Layout\<close>

lemma offsetOf_type: "type a = type b \<Longrightarrow> offsetOf a = offsetOf b"
  by (simp add: offsetOf_def)

lemma computeOffsetFrom_again:
  "computeOffsetFrom h (computeOffsetFrom h' opts) = computeOffsetFrom h opts"
proof (induction h' opts arbitrary: h rule: computeOffsetFrom.induct)
  case (1 height)
  show ?case by simp
next
  case (2 height i t l a s cs off e vs)
  have o: "offsetOf (MenuOption i t l a s (if cs \<noteq> [] then computeOffsetFrom 12 cs else cs) height e)
             = offsetOf (MenuOption i t l a s cs off e)"
    by (rule offsetOf_type) simp
  have n: "computeOffsetFrom 12 cs \<noteq> []" if "cs \<noteq> []"
  proof (cases cs)
    case Nil
    with that show ?thesis by simp
  next
    case (Cons x xs)
    then show ?thesis by (cases x) simp
  qed
  show ?case
  proof (cases "cs = []")
    case True
    with "2.IH"(2) o show ?thesis by simp
  next
    case False
    with "2.IH" o n show ?thesis by simp
  qed
qed

text \<open>
  C8: running the layout pass on an already laid-out tree changes nothing, so the
  offsets at both levels after two runs are those after one run.
\<close>

theorem layout_idempotent:
  "computeOffsetForOptions (computeOffsetForOptions opts) = computeOffsetForOptions opts"
  by (simp add: computeOffsetForOptions_def computeOffsetFrom_again)

section \<open>The buffer triangles\<close>

lemma fold_offsetOf_ge: "a \<le> fold (\<lambda>v height. height + offsetOf v) opts a"
proof (induction opts arbitrary: a)
  case Nil
  show ?case by simp
next
  case (Cons v opts)
  have "0 \<le> offsetOf v" by (simp add: offsetOf_def split: MenuOptionType.splits)
  then have "a \<le> a + offsetOf v" by simp
  also have "\<dots> \<le> fold (\<lambda>v height. height + offsetOf v) opts (a + offsetOf v)"
    by (rule Cons.IH)
  finally show ?case by simp
qed

lemma menu_size_height_nonneg: "0 \<le> vy (menu_size I opts)"
  by (simp add: menu_size_def vec2_def fold_offsetOf_ge)

text \<open>
  C4 (amended): both buffer triangles span the width of the menu column; the upper
  one is 15 pixels high, the lower one is as high as the submenu of the root.
\<close>

theorem bufferTriangle_spans:
  "spanX (upperBufferTriangle I m r) = \<bar>MenuWidth I\<bar>
   \<and> spanY (upperBufferTriangle I m r) = 15
   \<and> spanX (lowerBufferTriangle I m r) = \<bar>MenuWidth I\<bar>
   \<and> spanY (lowerBufferTriangle I m r) = vy (menu_size I (children r))"
proof -
  have w: "vx (menu_size I (options (tree m))) = MenuWidth I"
    by (simp add: menu_size_def vec2_def)
  have h: "0 \<le> vy (menu_size I (children r))"
    by (rule menu_size_height_nonneg)
  have 1: "spanX (upperBufferTriangle I m r) = \<bar>MenuWidth I\<bar>"
    by (simp add: spanX_def upperBufferTriangle_def Let_def w add_def vec2_def)
  have 2: "spanY (upperBufferTriangle I m r) = 15"
    by (simp add: spanY_def upperBufferTriangle_def Let_def w add_def vec2_def)
  have 3: "spanX (lowerBufferTriangle I m r) = \<bar>MenuWidth I\<bar>"
    by (simp add: spanX_def lowerBufferTriangle_def Let_def w add_def vec2_def)
  have 4: "spanY (lowerBufferTriangle I m r) = vy (menu_size I (children r))"
    using h by (simp add: spanY_def lowerBufferTriangle_def Let_def w add_def vec2_def)
  from 1 2 3 4 show ?thesis by simp
qed

theorem lowerBufferTriangle_height_counterexample:
  "spanY (lowerBufferTriangle demoImports (demoMenu True) (options (tree (demoMenu True)) ! 10)) = 62
   \<and> spanY (lowerBufferTriangle demoImports (demoMenu True) (options (tree (demoMenu True)) ! 10))
       \<noteq> 15"
  by code_simp

section \<open>The controller's operations\<close>

text \<open>
  C1: on a visible menu, \<open>click\<close> hides the menu exactly when the recomputed path is a
  resolved selection (length 1 with a childless root, or length 2), and then returns
  the action of the selected option if that is enabled and the empty string if not; in
  every other case it returns the empty string without hiding, and on a menu that is
  not visible it changes nothing.
\<close>

theorem click_resolves:
  fixes I clock v m
  defines "path \<equiv> fst (optionPathUnderMouse I clock (m\<lparr>mousePosition := v\<rparr>))"
      and "rv \<equiv> fst (click I clock v m)"
      and "m' \<equiv> snd (click I clock v m)"
  shows "(visible m \<and> resolvedSelection path \<longrightarrow>
            \<not> visible m' \<and> optionPath m' = path
            \<and> rv = (if enabled (last path) then action (last path) else ''''))
       \<and> (visible m \<and> \<not> resolvedSelection path \<longrightarrow>
            visible m' \<and> optionPath m' = path \<and> rv = '''')
       \<and> (\<not> visible m \<longrightarrow> m' = m \<and> rv = '''')"
proof -
  obtain p m1 where r: "optionPathUnderMouse I clock (m\<lparr>mousePosition := v\<rparr>) = (p, m1)"
    by (metis surj_pair)
  from optionPathUnderMouse_frame[OF r] have vis: "visible m1 = visible m"
    by (simp add: onlyTimerChanged_iff)
  have p: "path = p" by (simp add: path_def r)
  have sel: "p \<noteq> [] \<Longrightarrow> p ! (length p - 1) = last p"
    by (simp add: last_conv_nth)
  have one: "length p = 1 \<Longrightarrow> last p = p ! 0"
    by (cases p) auto
  have ne: "resolvedSelection p \<Longrightarrow> p \<noteq> []"
    by (auto simp: resolvedSelection_def)
  have a: "\<not> visible m \<Longrightarrow> click I clock v m = ('''', m)"
    by (simp add: click_def)
  have b: "visible m \<Longrightarrow> resolvedSelection p \<Longrightarrow>
      click I clock v m = ((if enabled (last p) then action (last p) else ''''),
                           hide (m1\<lparr>optionPath := p\<rparr>))"
    using ne sel one
    by (auto simp: click_def r Let_def resolvedSelection_def sameObject_def)
  have c: "visible m \<Longrightarrow> \<not> resolvedSelection p \<Longrightarrow>
      click I clock v m = ('''', m1\<lparr>optionPath := p\<rparr>)"
    using sel one
    by (auto simp: click_def r Let_def resolvedSelection_def sameObject_def)
  show ?thesis
    unfolding rv_def m'_def p using a b c vis by (auto simp: hide_def)
qed

theorem click_resolves_witness:
  "(visible (demoMenu False)
     \<and> resolvedSelection (fst (optionPathUnderMouse demoImports demoClock
           ((demoMenu False)\<lparr>mousePosition := vec2 110 180\<rparr>)))
     \<and> \<not> visible (snd (click demoImports demoClock (vec2 110 180) (demoMenu False)))
     \<and> fst (click demoImports demoClock (vec2 110 180) (demoMenu False)) = ''snap-frame'')
   \<and> (visible (demoMenu False)
     \<and> resolvedSelection (fst (optionPathUnderMouse demoImports demoClock
           ((demoMenu False)\<lparr>mousePosition := vec2 10 30\<rparr>)))
     \<and> \<not> visible (snd (click demoImports demoClock (vec2 10 30) (demoMenu False)))
     \<and> fst (click demoImports demoClock (vec2 10 30) (demoMenu False)) = '''')
   \<and> (visible (demoMenu False)
     \<and> \<not> resolvedSelection (fst (optionPathUnderMouse demoImports demoClock
           ((demoMenu False)\<lparr>mousePosition := vec2 10 150\<rparr>)))
     \<and> visible (snd (click demoImports demoClock (vec2 10 150) (demoMenu False)))
     \<and> fst (click demoImports demoClock (vec2 10 150) (demoMenu False)) = '''')
   \<and> (\<not> visible (hide (demoMenu False))
     \<and> click demoImports demoClock (vec2 10 30) (hide (demoMenu False))
         = ('''', hide (demoMenu False)))"
proof -
  have v: "visible (demoMenu False)" by code_simp
  have h: "\<not> visible (hide (demoMenu False))" by code_simp
  have r1: "resolvedSelection (fst (optionPathUnderMouse demoImports demoClock
           ((demoMenu False)\<lparr>mousePosition := vec2 110 180\<rparr>)))" by code_simp
  have e1: "enabled (last (fst (optionPathUnderMouse demoImports demoClock
           ((demoMenu False)\<lparr>mousePosition := vec2 110 180\<rparr>))))" by code_simp
  have a1: "action (last (fst (optionPathUnderMouse demoImports demoClock
           ((demoMenu False)\<lparr>mousePosition := vec2 110 180\<rparr>)))) = ''snap-frame''"
    by code_simp
  have r2: "resolvedSelection (fst (optionPathUnderMouse demoImports demoClock
           ((demoMenu False)\<lparr>mousePosition := vec2 10 30\<rparr>)))" by code_simp
  have e2: "\<not> enabled (last (fst (optionPathUnderMouse demoImports demoClock
           ((demoMenu False)\<lparr>mousePosition := vec2 10 30\<rparr>))))" by code_simp
  have r3: "\<not> resolvedSelection (fst (optionPathUnderMouse demoImports demoClock
           ((demoMenu False)\<lparr>mousePosition := vec2 10 150\<rparr>)))" by code_simp
  show ?thesis
    using v h r1 e1 a1 r2 e2 r3
      click_resolves [of "demoMenu False" demoImports demoClock "vec2 110 180"]
      click_resolves [of "demoMenu False" demoImports demoClock "vec2 10 30"]
      click_resolves [of "demoMenu False" demoImports demoClock "vec2 10 150"]
      click_resolves [of "hide (demoMenu False)" demoImports demoClock "vec2 10 30"]
    by (simp add: prod_eq_iff)
qed

text \<open>
  C3 (amended): \<open>hide\<close> sets \<open>visible\<close> to false and leaves the selection path, like
  every other field, as it was; the path is cleared by the next \<open>setMousePosition\<close>,
  which finds the menu invisible.
\<close>

theorem hide_keeps_path:
  "visible (hide m) = False \<and> optionPath (hide m) = optionPath m
   \<and> onlyTimerChanged (m\<lparr>visible := False\<rparr>) (hide m)
   \<and> disableBufferTriangles (hide m) = disableBufferTriangles m
   \<and> enteredRootElementTimestamp (hide m) = enteredRootElementTimestamp m
   \<and> optionPath (setMousePosition I clock v (hide m)) = []"
  by (simp add: hide_def setMousePosition_def onlyTimerChanged_iff)

theorem hide_clears_path_counterexample:
  "optionPath (hide (snd (click demoImports demoClock (vec2 10 30) (demoMenu False)))) \<noteq> []"
  by code_simp

text \<open>
  C6: when \<open>setMousePosition\<close> on a visible menu computes an empty path, the menu stays
  visible exactly when the pointer is inside the box at the anchor minus (40, 40) whose
  size is the menu's size plus (80, 150).
\<close>

theorem autoDismiss_outside_padded_box:
  assumes "visible m"
      and "fst (optionPathUnderMouse I clock (m\<lparr>mousePosition := v\<rparr>)) = []"
  shows "visible (setMousePosition I clock v m) =
           pointInBox v (add (position m) (vec2 (- 40) (- 40)))
             (add (menu_size I (options (tree m))) (vec2 80 150))"
proof -
  obtain p m1 where r: "optionPathUnderMouse I clock (m\<lparr>mousePosition := v\<rparr>) = (p, m1)"
    by (metis surj_pair)
  from optionPathUnderMouse_frame[OF r]
  have f: "visible m1 = visible m" "position m1 = position m" "tree m1 = tree m"
    "mousePosition m1 = v"
    by (simp_all add: onlyTimerChanged_iff)
  from assms(2) r have "p = []" by simp
  with assms(1) r f show ?thesis
    by (simp add: setMousePosition_def hide_def Let_def)
qed

theorem autoDismiss_outside_padded_box_witness:
  "(visible (demoMenu True)
     \<and> fst (optionPathUnderMouse demoImports demoClock
           ((demoMenu True)\<lparr>mousePosition := vec2 300 300\<rparr>)) = []
     \<and> \<not> visible (setMousePosition demoImports demoClock (vec2 300 300) (demoMenu True)))
   \<and> (visible (demoMenu True)
     \<and> fst (optionPathUnderMouse demoImports demoClock
           ((demoMenu True)\<lparr>mousePosition := vec2 (- 20) 250\<rparr>)) = []
     \<and> visible (setMousePosition demoImports demoClock (vec2 (- 20) 250) (demoMenu True)))"
proof -
  have v: "visible (demoMenu True)" by code_simp
  have p1: "fst (optionPathUnderMouse demoImports demoClock
           ((demoMenu True)\<lparr>mousePosition := vec2 300 300\<rparr>)) = []" by code_simp
  have p2: "fst (optionPathUnderMouse demoImports demoClock
           ((demoMenu True)\<lparr>mousePosition := vec2 (- 20) 250\<rparr>)) = []" by code_simp
  have b1: "\<not> pointInBox (vec2 300 300) (add (position (demoMenu True)) (vec2 (- 40) (- 40)))
             (add (menu_size demoImports (options (tree (demoMenu True)))) (vec2 80 150))"
    by code_simp
  have b2: "pointInBox (vec2 (- 20) 250) (add (position (demoMenu True)) (vec2 (- 40) (- 40)))
             (add (menu_size demoImports (options (tree (demoMenu True)))) (vec2 80 150))"
    by code_simp
  show ?thesis
    using v p1 p2 b1 b2
      autoDismiss_outside_padded_box [OF v p1]
      autoDismiss_outside_padded_box [OF v p2]
    by simp
qed

text \<open>
  C9: \<open>click\<close> on a menu that is not visible returns the empty string and leaves the
  whole state as it was, whereas \<open>setMousePosition\<close> then stores the pointer and clears
  the path.
\<close>

theorem click_invisible_noop:
  assumes "\<not> visible m"
  shows "click I clock v m = ('''', m)
         \<and> setMousePosition I clock v m = m\<lparr>mousePosition := v, optionPath := []\<rparr>"
  using assms by (simp add: click_def setMousePosition_def)

theorem click_invisible_noop_witness:
  "\<not> visible (new_Menu demoImports (demoParent True) 0)
   \<and> click demoImports demoClock (vec2 10 30) (new_Menu demoImports (demoParent True) 0)
       = ('''', new_Menu demoImports (demoParent True) 0)
   \<and> mousePosition (setMousePosition demoImports demoClock (vec2 10 30)
         (new_Menu demoImports (demoParent True) 0)) = vec2 10 30"
proof -
  have v: "\<not> visible (new_Menu demoImports (demoParent True) 0)" by code_simp
  show ?thesis
    using v click_invisible_noop [OF v, of demoImports demoClock "vec2 10 30"] by simp
qed

section \<open>The open submenu\<close>

lemma fold_push_miss:
  "\<forall>c\<in>set xs. \<not> P c \<Longrightarrow>
     fold (\<lambda>c result. if P c then result @ [r, c] else result) xs res = res"
  by (induction xs arbitrary: res) simp_all

text \<open>
  C10: with a submenu open, a pointer inside the box of the submenu but inside no row
  of it makes the computed path empty, and the buffer flag is set all the same.
\<close>

theorem submenu_gap_empties_path:
  assumes "optionPath m = r # rest"
      and "children r \<noteq> []"
      and "pointInBox (mousePosition m)
             (add (position m) (vec2 (MenuWidth I) (computedOffset r - 10)))
             (menu_size I (children r))"
      and "\<forall>c\<in>set (children r).
             \<not> pointInBox (mousePosition m)
                 (add (vec2 (vx (position m)) (vy (position m) + computedOffset r - 10))
                      (vec2 (MenuWidth I) (computedOffset c - 10)))
                 (vec2 (MenuWidth I) (offsetOf c))"
  shows "optionPathUnderMouse I clock m = ([], m\<lparr>disableBufferTriangles := True\<rparr>)"
proof -
  have w: "\<And>opts. vx (menu_size I opts) = MenuWidth I"
    by (simp add: menu_size_def vec2_def)
  have miss: "\<forall>c\<in>set (children r).
      \<not> childRowHit m (menu_size I (options (tree m))) (stickyUpperLeft m r)
          (menu_size I (children r)) c"
    using assms(4) by (simp add: childRowHit_def stickyUpperLeft_def w)
  have "stickySubmenu I m = Some ([], m\<lparr>disableBufferTriangles := True\<rparr>)"
    using assms(1,2,3) fold_push_miss[OF miss]
    by (simp add: stickySubmenu_def Let_def w)
  then show ?thesis by (simp add: optionPathUnderMouse_def)
qed

theorem submenu_gap_empties_path_witness:
  "map label (optionPath demoSnapOpen) = [''Snap'']
   \<and> \<not> disableBufferTriangles demoSnapOpen
   \<and> optionPathUnderMouse demoImports laterClock (demoSnapOpen\<lparr>mousePosition := vec2 110 149\<rparr>)
       = ([], demoSnapOpen\<lparr>mousePosition := vec2 110 149, disableBufferTriangles := True\<rparr>)"
proof -
  let ?m = "demoSnapOpen\<lparr>mousePosition := vec2 110 149\<rparr>"
  let ?r = "hd (optionPath demoSnapOpen)"
  have l: "map label (optionPath demoSnapOpen) = [''Snap'']" by code_simp
  have d: "\<not> disableBufferTriangles demoSnapOpen" by code_simp
  have 1: "optionPath ?m = ?r # []" by code_simp
  have 2: "children ?r \<noteq> []" by code_simp
  have 3: "pointInBox (mousePosition ?m)
             (add (position ?m) (vec2 (MenuWidth demoImports) (computedOffset ?r - 10)))
             (menu_size demoImports (children ?r))" by code_simp
  have 4: "\<forall>c\<in>set (children ?r).
             \<not> pointInBox (mousePosition ?m)
                 (add (vec2 (vx (position ?m)) (vy (position ?m) + computedOffset ?r - 10))
                      (vec2 (MenuWidth demoImports) (computedOffset c - 10)))
                 (vec2 (MenuWidth demoImports) (offsetOf c))" by code_simp
  show ?thesis
    using l d submenu_gap_empties_path [OF 1 2 3 4, of laterClock] by simp
qed

section \<open>The scan of the whole tree\<close>








section \<open>The shape of the selection path\<close>




























end
